theory Spec2Isabelle
  imports Complex_Main "HOL-Library.Log_Nat"
begin

section \<open>JavaScript values\<close>

text \<open>
  A JavaScript string is a sequence of UTF-16 code units, the numbers from 0 to 65535.
  The texts whose characters the code inspects (headers, cells, drug names, search
  results) are lists of code units; \<open>ascii\<close> embeds a literal. Identifiers and messages, which the code only
  compares or passes on, stay HOL strings.
\<close>

type_synonym jsstring = "int list"

definition ascii :: "string \<Rightarrow> jsstring" where
  "ascii s = map of_char s"

text \<open>
  A JavaScript number is an IEEE 754 double: \<open>NaN\<close>, an infinity, or a finite value,
  given by the rational it denotes. The sign of zero is not modelled.
\<close>

datatype jsnum = NaN | Num rat | PosInfinity | NegInfinity

datatype jsval = Undefined | Null | Bool bool | Number jsnum | Str jsstring

subsection \<open>Double-precision arithmetic\<close>

definition pow2 :: "int \<Rightarrow> rat" where
  "pow2 e = (if 0 \<le> e then 2 ^ nat e else 1 / 2 ^ nat (- e))"

text \<open>The exponent \<open>k\<close> with \<open>2^k \<le> q < 2^(k+1)\<close>, for a positive \<open>q\<close>.\<close>

definition floorLog2 :: "rat \<Rightarrow> int" where
  "floorLog2 q =
    (let (a, b) = quotient_of q; d = bitlen a - bitlen b
     in if pow2 d \<le> q then d else d - 1)"

definition roundHalfEven :: "rat \<Rightarrow> int" where
  "roundHalfEven x =
    (let f = \<lfloor>x\<rfloor>; r = x - of_int f
     in if r < 1 / 2 then f else if 1 / 2 < r then f + 1 else if even f then f else f + 1)"

text \<open>
  The double nearest to a rational, ties to the even significand: 53 bits of
  significand above the smallest exponent, the fixed quantum \<open>2^-1074\<close> below it, and
  an infinity when the rounded value reaches \<open>2^1024\<close>.
\<close>

definition roundDouble :: "rat \<Rightarrow> jsnum" where
  "roundDouble q =
    (if q = 0 then Num 0
     else (let e = max (floorLog2 \<bar>q\<bar> - 52) (- 1074);
               m = roundHalfEven (\<bar>q\<bar> / pow2 e)
           in if 971 < e \<or> (e = 971 \<and> 2 ^ 53 \<le> m) then
                (if 0 < q then PosInfinity else NegInfinity)
              else Num ((if 0 < q then 1 else - 1) * of_int m * pow2 e)))"

definition isNegative :: "jsnum \<Rightarrow> bool" where
  "isNegative n = (case n of Num q \<Rightarrow> q < 0 | NegInfinity \<Rightarrow> True | _ \<Rightarrow> False)"

definition infinity :: "bool \<Rightarrow> jsnum" where
  "infinity negative = (if negative then NegInfinity else PosInfinity)"

text \<open>\<open>a * b\<close>, \<open>a - b\<close> and \<open>a / b\<close> on numbers.\<close>

definition fmul :: "jsnum \<Rightarrow> jsnum \<Rightarrow> jsnum" where
  "fmul a b =
    (if a = NaN \<or> b = NaN then NaN
     else case (a, b) of
       (Num x, Num y) \<Rightarrow> roundDouble (x * y)
     | _ \<Rightarrow> if a = Num 0 \<or> b = Num 0 then NaN else infinity (isNegative a \<noteq> isNegative b))"

definition fsub :: "jsnum \<Rightarrow> jsnum \<Rightarrow> jsnum" where
  "fsub a b =
    (if a = NaN \<or> b = NaN then NaN
     else case (a, b) of
       (Num x, Num y) \<Rightarrow> roundDouble (x - y)
     | (Num x, _) \<Rightarrow> infinity (\<not> isNegative b)
     | (_, Num y) \<Rightarrow> a
     | _ \<Rightarrow> if a = b then NaN else a)"

definition fdiv :: "jsnum \<Rightarrow> jsnum \<Rightarrow> jsnum" where
  "fdiv a b =
    (if a = NaN \<or> b = NaN then NaN
     else case (a, b) of
       (Num x, Num y) \<Rightarrow>
         if y = 0 then (if x = 0 then NaN else infinity (x < 0)) else roundDouble (x / y)
     | (Num x, _) \<Rightarrow> Num 0
     | (_, Num y) \<Rightarrow> infinity (isNegative a \<noteq> (y < 0))
     | _ \<Rightarrow> NaN)"

text \<open>
  \<open>Decimal.toNumber()\<close>: the library prints the decimal and the language reads the
  digits back, which gives the double nearest to the decimal value. A Prisma
  \<open>Decimal\<close> read from a column is a finite decimal, given here by its rational
  value.
\<close>

definition decimalToNumber :: "rat \<Rightarrow> jsnum" where
  "decimalToNumber d = roundDouble d"

subsection \<open>Truthiness\<close>

text \<open>Of a value of type \<open>number | undefined\<close>: \<open>undefined\<close>, \<open>0\<close> and \<open>NaN\<close> are
  falsy.\<close>

definition truthy :: "jsnum option \<Rightarrow> bool" where
  "truthy v = (case v of None \<Rightarrow> False | Some n \<Rightarrow> n \<noteq> Num 0 \<and> n \<noteq> NaN)"

text \<open>Of a value of type \<open>string | undefined | null\<close>.\<close>

definition truthyStr :: "'a list option \<Rightarrow> bool" where
  "truthyStr v = (case v of None \<Rightarrow> False | Some s \<Rightarrow> s \<noteq> [])"

text \<open>Of any value.\<close>

definition truthyVal :: "jsval \<Rightarrow> bool" where
  "truthyVal v =
    (case v of
       Undefined \<Rightarrow> False
     | Null \<Rightarrow> False
     | Bool b \<Rightarrow> b
     | Number n \<Rightarrow> n \<noteq> NaN \<and> n \<noteq> Num 0
     | Str s \<Rightarrow> s \<noteq> [])"

text \<open>\<open>a || b\<close> on optional numbers.\<close>

definition orElse :: "jsnum option \<Rightarrow> jsnum option \<Rightarrow> jsnum option" where
  "orElse a b = (if truthy a then a else b)"

section \<open>Strings\<close>

text \<open>
  The code units that \<open>trim\<close> removes and that \<open>\s\<close> matches: the white space and the
  line terminators of the language (tab to carriage return, space, no-break space,
  Ogham space mark, the spaces U+2000 to U+200A, line and paragraph separator,
  narrow no-break space, medium mathematical space, ideographic space, and the
  byte-order mark). U+180E, which older editions of Unicode counted as a space, is not
  among them.
\<close>

definition isSpace :: "int \<Rightarrow> bool" where
  "isSpace c =
    ((9 \<le> c \<and> c \<le> 13) \<or> c = 32 \<or> c = 160 \<or> c = 5760 \<or> (8192 \<le> c \<and> c \<le> 8202)
     \<or> c = 8232 \<or> c = 8233 \<or> c = 8239 \<or> c = 8287 \<or> c = 12288 \<or> c = 65279)"

definition trim :: "jsstring \<Rightarrow> jsstring" where
  "trim s = rev (dropWhile isSpace (rev (dropWhile isSpace s)))"

text \<open>\<open>s.replace(/[_\s]+/g, ' ')\<close>: every maximal run of underscores and white space
  becomes one space.\<close>

definition isSeparator :: "int \<Rightarrow> bool" where
  "isSeparator c = (c = 95 \<or> isSpace c)"

function collapseSeparators :: "jsstring \<Rightarrow> jsstring" where
  "collapseSeparators [] = []"
| "collapseSeparators (c # cs) =
    (if isSeparator c then 32 # collapseSeparators (dropWhile isSeparator cs)
     else c # collapseSeparators cs)"
  by pat_completeness auto
termination
  by (relation "measure length") (auto simp: less_Suc_eq_le length_dropWhile_le)

text \<open>\<open>s.split(/[;,]/)\<close>: the pieces between the separators; the empty string gives
  one empty piece.\<close>

fun splitOn :: "('a \<Rightarrow> bool) \<Rightarrow> 'a list \<Rightarrow> 'a list list" where
  "splitOn P [] = [[]]"
| "splitOn P (c # cs) =
    (if P c then [] # splitOn P cs
     else (case splitOn P cs of [] \<Rightarrow> [[c]] | w # ws \<Rightarrow> (c # w) # ws))"

text \<open>\<open>xs.indexOf(x)\<close>, with \<open>None\<close> for \<open>-1\<close>.\<close>

fun indexOf :: "'a list \<Rightarrow> 'a \<Rightarrow> nat option" where
  "indexOf [] x = None"
| "indexOf (y # ys) x = (if y = x then Some 0 else map_option Suc (indexOf ys x))"

section \<open>Library functions\<close>

text \<open>
  The conversions \<open>String(n)\<close> on a number and \<open>Number(s)\<close> on a string, the Unicode
  case mapping \<open>s.toLowerCase()\<close>, and the division and the multiplication of the
  \<open>Decimal\<close> library, which round to the precision the library is configured with, are
  not functions of this repository. They are parameters of the model, and every
  theorem holds for all of them.
\<close>

record builtins =
  numberToString :: "jsnum \<Rightarrow> jsstring"
  stringToNumber :: "jsstring \<Rightarrow> jsnum"
  toLowerCase :: "jsstring \<Rightarrow> jsstring"
  decimalDiv :: "rat \<Rightarrow> rat \<Rightarrow> rat"
  decimalMul :: "rat \<Rightarrow> rat \<Rightarrow> rat"

definition toString :: "builtins \<Rightarrow> jsval \<Rightarrow> jsstring" where
  "toString B v =
    (case v of
       Undefined \<Rightarrow> ascii ''undefined''
     | Null \<Rightarrow> ascii ''null''
     | Bool b \<Rightarrow> (if b then ascii ''true'' else ascii ''false'')
     | Number n \<Rightarrow> numberToString B n
     | Str s \<Rightarrow> s)"

definition toNumber :: "builtins \<Rightarrow> jsval \<Rightarrow> jsnum" where
  "toNumber B v =
    (case v of
       Undefined \<Rightarrow> NaN
     | Null \<Rightarrow> Num 0
     | Bool b \<Rightarrow> (if b then Num 1 else Num 0)
     | Number n \<Rightarrow> n
     | Str s \<Rightarrow> stringToNumber B s)"

section \<open>The cost calculator\<close>

datatype RecommendationType =
  DOSE_REDUCTION | SWITCH_TO_BIOSIMILAR | SWITCH_TO_PREFERRED | THERAPEUTIC_SWITCH
  | OPTIMIZE_CURRENT

text \<open>
  The fields of a formulary drug that the decision engine reads. The two money fields
  are nullable \<open>Decimal\<close> columns.
\<close>

record FormularyDrug =
  fd_drugName :: jsstring
  fd_drugClass :: string
  fd_tier :: int
  fd_requiresPA :: "string option"
  fd_annualCostWAC :: "rat option"
  fd_memberCopayT1 :: "rat option"

record LLMRecommendation =
  rec_type :: RecommendationType
  rec_drugName :: "jsstring option"
  rec_newDose :: "string option"
  rec_newFrequency :: "string option"
  rec_rationale :: string
  rec_monitoringPlan :: "string option"
  rec_rank :: int

record CostSavings =
  currentAnnualCost :: "jsnum option"
  recommendedAnnualCost :: "jsnum option"
  annualSavings :: "jsnum option"
  savingsPercent :: "jsnum option"
  currentMonthlyOOP :: "jsnum option"
  recommendedMonthlyOOP :: "jsnum option"

text \<open>
  \<open>calculateCostSavings\<close>. \<open>d?.annualCostWAC?.toNumber()\<close> is \<open>undefined\<close> when the
  drug is absent or the column is null. Under each guard the costs read with \<open>the\<close>
  are present, because the guard is their truthiness. The literals 0.75, 0.25, 100 and
  25 are doubles.
\<close>

definition calculateCostSavings ::
  "builtins \<Rightarrow> LLMRecommendation \<Rightarrow> FormularyDrug option \<Rightarrow> FormularyDrug option
     \<Rightarrow> CostSavings" where
  "calculateCostSavings B recommendation currentDrug targetDrug =
    (let cur = map_option decimalToNumber (Option.bind currentDrug fd_annualCostWAC);
         (recommended, savings, percent) =
           (if rec_type recommendation = DOSE_REDUCTION \<and> truthy cur then
              (Some (fmul (the cur) (Num 0.75)), Some (fmul (the cur) (Num 0.25)),
               Some (Num 25))
            else if targetDrug \<noteq> None \<and> truthy cur then
              (let r = map_option decimalToNumber (Option.bind targetDrug fd_annualCostWAC) in
               if truthy r then
                 (let s = fsub (the cur) (the r) in
                  (r, Some s, Some (fmul (fdiv s (the cur)) (Num 100))))
               else (r, None, None))
            else (None, None, None))
     in \<lparr> currentAnnualCost = cur,
          recommendedAnnualCost = recommended,
          annualSavings = savings,
          savingsPercent = percent,
          currentMonthlyOOP =
            map_option (\<lambda>m. decimalToNumber (decimalDiv B m 12))
              (Option.bind currentDrug fd_memberCopayT1),
          recommendedMonthlyOOP =
            orElse (map_option (\<lambda>m. decimalToNumber (decimalDiv B m 12))
                      (Option.bind targetDrug fd_memberCopayT1))
                   (map_option (\<lambda>m. decimalToNumber (decimalMul B (decimalDiv B m 12) 0.75))
                      (Option.bind currentDrug fd_memberCopayT1)) \<rparr>)"

section \<open>The formulary parser\<close>

text \<open>The alias table, in the order of \<open>Object.entries\<close>.\<close>

definition columnMappings :: "(string \<times> jsstring list) list" where
  "columnMappings =
    [(''drugName'',
        map ascii [''drug name'', ''drugname'', ''drug'', ''medication'', ''brand name'',
                   ''brand'']),
     (''genericName'', map ascii [''generic name'', ''genericname'', ''generic'']),
     (''drugClass'', map ascii [''drug class'', ''drugclass'', ''class'', ''category'', ''type'']),
     (''formulation'', map ascii [''formulation'', ''dosage form'', ''form'']),
     (''strength'', map ascii [''strength'', ''dose strength'', ''concentration'']),
     (''tier'', map ascii [''tier'', ''formulary tier'', ''formulary_tier'']),
     (''requiresPA'',
        map ascii [''requires pa'', ''pa required'', ''prior auth'', ''prior authorization'',
                   ''pa'']),
     (''stepTherapyRequired'', map ascii [''step therapy'', ''step_therapy'', ''step required'']),
     (''restrictions'', map ascii [''restrictions'', ''restriction'', ''limits'']),
     (''quantityLimit'',
        map ascii [''quantity limit'', ''quantity_limit'', ''qty limit'', ''ql'']),
     (''biosimilarOf'',
        map ascii [''biosimilar of'', ''biosimilar_of'', ''reference product'', ''originator'']),
     (''fdaIndications'',
        map ascii [''fda indications'', ''indications'', ''approved indications'',
                   ''approved_indications'']),
     (''ndcCode'', map ascii [''ndc code'', ''ndc'', ''ndc_code'', ''national drug code''])]"

definition normalizeColumnName :: "builtins \<Rightarrow> jsstring \<Rightarrow> jsstring" where
  "normalizeColumnName B col = collapseSeparators (trim (toLowerCase B col))"

text \<open>The inner loop of \<open>mapColumns\<close>: the header at the first position of the first
  alias that occurs among the normalized headers.\<close>

fun firstAlias :: "jsstring list \<Rightarrow> jsstring list \<Rightarrow> jsstring list \<Rightarrow> jsstring option" where
  "firstAlias headers normalizedHeaders [] = None"
| "firstAlias headers normalizedHeaders (alias # aliases) =
    (case indexOf normalizedHeaders alias of
       Some index \<Rightarrow> Some (headers ! index)
     | None \<Rightarrow> firstAlias headers normalizedHeaders aliases)"

definition mapColumns :: "builtins \<Rightarrow> jsstring list \<Rightarrow> (string \<rightharpoonup> jsstring)" where
  "mapColumns B headers =
    (let normalizedHeaders = map (normalizeColumnName B) headers in
     fold (\<lambda>(field, aliases) mapping.
             case firstAlias headers normalizedHeaders aliases of
               Some h \<Rightarrow> mapping(field \<mapsto> h)
             | None \<Rightarrow> mapping)
          columnMappings Map.empty)"

definition parseBoolean :: "builtins \<Rightarrow> jsval \<Rightarrow> bool" where
  "parseBoolean B v =
    (case v of
       Bool b \<Rightarrow> b
     | _ \<Rightarrow> trim (toLowerCase B (toString B v))
             \<in> set (map ascii [''yes'', ''true'', ''1'', ''y'']))"

definition parseNumber :: "builtins \<Rightarrow> jsval \<Rightarrow> jsnum option" where
  "parseNumber B v =
    (if v = Null \<or> v = Undefined \<or> v = Str [] then None
     else (let num = toNumber B v in if num = NaN then None else Some num))"

text \<open>
  An element of the batch is an object, given by its own properties in the order of
  \<open>Object.keys\<close> (the keys are distinct), or it is \<open>null\<close> or \<open>undefined\<close>, on which
  every property read and \<open>Object.keys\<close> throw a \<open>TypeError\<close>.
\<close>

datatype row = NotAnObject | Obj "(jsstring \<times> jsval) list"

text \<open>\<open>row[key]\<close> on an object: a missing property reads as \<open>undefined\<close>.\<close>

definition getProp :: "(jsstring \<times> jsval) list \<Rightarrow> jsstring \<Rightarrow> jsval" where
  "getProp kvs key = (case map_of kvs key of None \<Rightarrow> Undefined | Some v \<Rightarrow> v)"

record ParsedRow =
  pr_planId :: string
  pr_drugName :: jsval
  pr_genericName :: jsval
  pr_drugClass :: jsstring
  pr_formulation :: jsval
  pr_strength :: jsval
  pr_tier :: jsnum
  pr_requiresPA :: "jsstring option"
  pr_stepTherapyRequired :: bool
  pr_restrictions :: jsval
  pr_quantityLimit :: jsval
  pr_biosimilarOf :: jsval
  pr_fdaIndications :: "jsstring list"
  pr_ndcCode :: jsval

text \<open>
  The message of an error. The code writes two messages itself. The text of a
  \<open>TypeError\<close> is the engine's, so the model keeps which error it is: a property read
  on \<open>null\<close> or \<open>undefined\<close>, with the key that was read, or \<open>Object.keys\<close> of one.
\<close>

datatype message = Literal string | ReadOfNullish jsstring | KeysOfNullish

text \<open>\<open>columnMap.has(field) ? row[columnMap.get(field)!] : dflt\<close>.\<close>

definition cell ::
  "(string \<rightharpoonup> jsstring) \<Rightarrow> (jsstring \<times> jsval) list \<Rightarrow> string \<Rightarrow> jsval \<Rightarrow> jsval" where
  "cell columnMap kvs field dflt =
    (case columnMap field of None \<Rightarrow> dflt | Some h \<Rightarrow> getProp kvs h)"

text \<open>The object literal of the \<open>try\<close> block, on a row that is an object.\<close>

definition parseObject ::
  "builtins \<Rightarrow> (string \<rightharpoonup> jsstring) \<Rightarrow> string \<Rightarrow> (jsstring \<times> jsval) list \<Rightarrow> ParsedRow" where
  "parseObject B columnMap planId kvs =
    \<lparr> pr_planId = planId,
      pr_drugName = cell columnMap kvs ''drugName'' Undefined,
      pr_genericName = cell columnMap kvs ''genericName'' (Str []),
      pr_drugClass =
        (case columnMap ''drugClass'' of
           Some h \<Rightarrow> toString B (getProp kvs h) | None \<Rightarrow> ascii ''OTHER''),
      pr_formulation = cell columnMap kvs ''formulation'' Null,
      pr_strength = cell columnMap kvs ''strength'' Null,
      pr_tier =
        (case parseNumber B (cell columnMap kvs ''tier'' (Number (Num 3))) of
           Some n \<Rightarrow> n | None \<Rightarrow> Num 3),
      pr_requiresPA =
        (case columnMap ''requiresPA'' of
           Some h \<Rightarrow> Some (toString B (getProp kvs h)) | None \<Rightarrow> None),
      pr_stepTherapyRequired =
        (case columnMap ''stepTherapyRequired'' of
           Some h \<Rightarrow> parseBoolean B (getProp kvs h) | None \<Rightarrow> False),
      pr_restrictions = cell columnMap kvs ''restrictions'' Null,
      pr_quantityLimit = cell columnMap kvs ''quantityLimit'' Null,
      pr_biosimilarOf = cell columnMap kvs ''biosimilarOf'' Null,
      pr_fdaIndications =
        (case columnMap ''fdaIndications'' of
           Some h \<Rightarrow>
             filter (\<lambda>s. length s > 0)
               (map trim (splitOn (\<lambda>c. c = 59 \<or> c = 44) (toString B (getProp kvs h))))
         | None \<Rightarrow> []),
      pr_ndcCode = cell columnMap kvs ''ndcCode'' Null \<rparr>"

text \<open>
  The body of the \<open>try\<close> block: the parsed row, or the message of the exception. On a
  row that is not an object the first property read, that of the drug name, throws.
\<close>

definition parseRow ::
  "builtins \<Rightarrow> (string \<rightharpoonup> jsstring) \<Rightarrow> string \<Rightarrow> row \<Rightarrow> message + ParsedRow" where
  "parseRow B columnMap planId r =
    (case r of
       NotAnObject \<Rightarrow>
         Inl (ReadOfNullish
                (case columnMap ''drugName'' of Some h \<Rightarrow> h | None \<Rightarrow> ascii ''undefined''))
     | Obj kvs \<Rightarrow> Inr (parseObject B columnMap planId kvs))"

record RowError =
  err_row :: nat
  err_error :: message

record ParseResult =
  rows :: "ParsedRow list"
  errors :: "RowError list"

text \<open>The \<open>for\<close> loop, with its index and its two accumulators.\<close>

fun parseLoop ::
  "builtins \<Rightarrow> (string \<rightharpoonup> jsstring) \<Rightarrow> string \<Rightarrow> row list \<Rightarrow> nat
     \<Rightarrow> ParsedRow list \<Rightarrow> RowError list \<Rightarrow> ParseResult" where
  "parseLoop B columnMap planId [] i parsedRows errs =
     \<lparr> rows = parsedRows, errors = errs \<rparr>"
| "parseLoop B columnMap planId (r # rest) i parsedRows errs =
    (case parseRow B columnMap planId r of
       Inr parsed \<Rightarrow> parseLoop B columnMap planId rest (i + 1) (parsedRows @ [parsed]) errs
     | Inl m \<Rightarrow>
         parseLoop B columnMap planId rest (i + 1) parsedRows
           (errs @ [\<lparr> err_row = i + 1, err_error = m \<rparr>]))"

text \<open>
  \<open>parseFormularyCSV\<close>. \<open>Object.keys(data[0])\<close> is outside the \<open>try\<close> block, so a
  first element that is not an object makes the whole call throw (\<open>Inl\<close>).
\<close>

definition parseFormularyCSV :: "builtins \<Rightarrow> row list \<Rightarrow> string \<Rightarrow> message + ParseResult" where
  \<open>parseFormularyCSV B data planId =
    (case data of
       [] \<Rightarrow> Inr \<lparr> rows = [],
                   errors = [\<lparr> err_row = 0, err_error = Literal ''No data provided'' \<rparr>] \<rparr>
     | NotAnObject # _ \<Rightarrow> Inl KeysOfNullish
     | Obj kvs # _ \<Rightarrow>
         (let headers = map fst kvs; columnMap = mapColumns B headers in
          if columnMap ''drugName'' = None then
            Inr \<lparr> rows = [],
                  errors = [\<lparr> err_row = 0,
                              err_error =
                                Literal ''Required column "Drug Name" not found'' \<rparr>] \<rparr>
          else Inr (parseLoop B columnMap planId data 0 [] [])))\<close>

section \<open>The admin endpoint\<close>

text \<open>
  The four tables the admin route reads, each by the ids of its records.
  \<open>prisma.t.delete({ where: { id } })\<close> removes the record with that id and throws when
  there is none; the message is the library's.
\<close>

record Database =
  tbl_knowledgeDocument :: "string set"
  tbl_formularyDrug :: "string set"
  tbl_pharmacyClaim :: "string set"
  tbl_uploadLog :: "string set"

definition prismaDelete :: "string set \<Rightarrow> string \<Rightarrow> string + string set" where
  "prismaDelete table recordId =
    (if recordId \<in> table then Inr (table - {recordId})
     else Inl ''Record to delete does not exist.'')"

datatype json = SuccessTrue | SuccessAssessment string | ErrorMessage string

record response =
  status :: nat
  body :: json

definition errorResponse :: "nat \<Rightarrow> string \<Rightarrow> response" where
  "errorResponse code message = \<lparr> status = code, body = ErrorMessage message \<rparr>"

text \<open>
  \<open>DELETE\<close>, on the two query parameters (\<open>None\<close> when the parameter is absent) and
  the database; it returns the response and the database after the call.
\<close>

definition DELETE :: "string option \<Rightarrow> string option \<Rightarrow> Database \<Rightarrow> response \<times> Database" where
  "DELETE type recordId db =
    (case recordId of
       None \<Rightarrow> (errorResponse 400 ''ID required'', db)
     | Some i \<Rightarrow>
         if i = [] then (errorResponse 400 ''ID required'', db)
         else if type = Some ''knowledge'' then
           (case prismaDelete (tbl_knowledgeDocument db) i of
              Inl message \<Rightarrow> (errorResponse 500 message, db)
            | Inr table \<Rightarrow>
                (\<lparr> status = 200, body = SuccessTrue \<rparr>, db\<lparr>tbl_knowledgeDocument := table\<rparr>))
         else if type = Some ''formulary'' then
           (case prismaDelete (tbl_formularyDrug db) i of
              Inl message \<Rightarrow> (errorResponse 500 message, db)
            | Inr table \<Rightarrow>
                (\<lparr> status = 200, body = SuccessTrue \<rparr>, db\<lparr>tbl_formularyDrug := table\<rparr>))
         else if type = Some ''claims'' then
           (case prismaDelete (tbl_pharmacyClaim db) i of
              Inl message \<Rightarrow> (errorResponse 500 message, db)
            | Inr table \<Rightarrow>
                (\<lparr> status = 200, body = SuccessTrue \<rparr>, db\<lparr>tbl_pharmacyClaim := table\<rparr>))
         else (errorResponse 400 ''Invalid type'', db))"

section \<open>The LLM decision engine\<close>

record AssessmentInput =
  patientId :: string
  diagnosis :: jsstring
  hasPsoriaticArthritis :: bool
  dlqiScore :: jsnum
  monthsStable :: jsnum
  additionalNotes :: "string option"

text \<open>
  The triage result is the parsed JSON object of the model's reply, cast to the
  interface without a check: a field holds whatever the reply holds, \<open>undefined\<close> when
  the reply has no such field.
\<close>

record TriageResult =
  canDoseReduce :: jsval
  shouldSwitch :: jsval
  quadrant :: jsval
  reasoning :: jsval

text \<open>
  A call of the chat-completion API either throws (the request fails, or the content
  is not JSON and \<open>JSON.parse\<close> throws), or it yields a parsed reply. In JSON mode the
  reply is an object; empty content is read as \<open>{}\<close>.
\<close>

datatype triage_reply = TriageThrows string | TriageParsed TriageResult

text \<open>The elements of a recommendation array are taken at their declared type.\<close>

datatype recs_field = FieldFalsy | FieldNotArray | FieldArray "LLMRecommendation list"

datatype recs_reply =
  RecsThrows string | ParsedArray "LLMRecommendation list" | ParsedObject recs_field

record KnowledgeHit =
  title :: jsstring
  content :: jsstring

record CurrentBiologic =
  cb_drugName :: jsstring

record Contraindication =
  c_type :: string

record InsurancePlan =
  formularyDrugs :: "FormularyDrug list"

record Patient =
  p_currentBiologics :: "CurrentBiologic list"
  p_contraindications :: "Contraindication list"
  p_plan :: "InsurancePlan option"

record Recommendation =
  r_rank :: int
  r_type :: RecommendationType
  r_drugName :: jsstring
  r_newDose :: "string option"
  r_newFrequency :: "string option"
  r_costs :: CostSavings
  r_rationale :: string
  r_evidenceSources :: "jsstring list"
  r_monitoringPlan :: "string option"
  r_tier :: "int option"
  r_requiresPA :: "string option"
  r_contraindicated :: bool

record GenerationResult =
  isStable :: jsval
  isFormularyOptimal :: bool
  g_quadrant :: jsval
  recommendations :: "Recommendation list"

text \<open>
  Everything outside the code: the environment variable, the database calls, the two
  uses of the language model (each reply may depend on all that the prompt is built
  from), the knowledge search, and the two functions of this repository whose source
  is not at hand, \<open>normalizeToGeneric\<close> and the rule-based \<open>generateRecommendations\<close>.
\<close>

record World =
  OPENAI_API_KEY :: "string option"
  findPatient :: "string \<Rightarrow> Patient option"
  normalizeToGeneric :: "jsstring \<Rightarrow> jsstring"
  triageLLM :: "AssessmentInput \<Rightarrow> jsstring \<Rightarrow> FormularyDrug option \<Rightarrow> triage_reply"
  searchKnowledge :: "jsstring \<Rightarrow> nat \<Rightarrow> string + KnowledgeHit list"
  recommendationLLM ::
    "AssessmentInput \<Rightarrow> jsstring \<Rightarrow> TriageResult \<Rightarrow> jsstring list \<Rightarrow> FormularyDrug list
       \<Rightarrow> FormularyDrug option \<Rightarrow> Contraindication list \<Rightarrow> recs_reply"
  generateRecommendations :: "AssessmentInput \<Rightarrow> string + GenerationResult"
  assessmentCreate :: "AssessmentInput \<Rightarrow> string + string"
  recommendationCreate :: "string \<Rightarrow> Recommendation \<Rightarrow> string + unit"

text \<open>\<open>triagePatient\<close>: the prompt is sent and the parsed reply is returned as it is.\<close>

definition triagePatient ::
  "World \<Rightarrow> AssessmentInput \<Rightarrow> jsstring \<Rightarrow> FormularyDrug option \<Rightarrow> string + TriageResult" where
  "triagePatient W assessment currentDrug formularyDrug =
    (case triageLLM W assessment currentDrug formularyDrug of
       TriageThrows message \<Rightarrow> Inl message
     | TriageParsed result \<Rightarrow> Inr result)"

text \<open>\<open>Promise.all\<close>: all the results, or the message of a call that failed.\<close>

fun promiseAll :: "(string + 'a) list \<Rightarrow> string + 'a list" where
  "promiseAll [] = Inr []"
| "promiseAll (Inl message # ps) = Inl message"
| "promiseAll (Inr x # ps) =
    (case promiseAll ps of Inl message \<Rightarrow> Inl message | Inr xs \<Rightarrow> Inr (x # xs))"

definition retrieveRelevantEvidence ::
  "World \<Rightarrow> jsstring \<Rightarrow> jsstring \<Rightarrow> TriageResult \<Rightarrow> string + jsstring list" where
  "retrieveRelevantEvidence W drugName diag triage =
    (let queries =
           (if truthyVal (canDoseReduce triage) then
              [drugName @ ascii '' dose reduction interval extension '' @ diag
                 @ ascii '' stable patients'',
               drugName @ ascii '' extended dosing efficacy '' @ diag]
            else [])
           @ (if truthyVal (shouldSwitch triage) then
                [ascii ''biosimilar switching '' @ drugName @ ascii '' '' @ diag,
                 ascii ''formulary optimization biologics '' @ diag]
              else [])
     in case promiseAll (map (\<lambda>query. searchKnowledge W query 3) queries) of
          Inl message \<Rightarrow> Inl message
        | Inr evidenceResults \<Rightarrow>
            Inr (map (\<lambda>e. title e @ ascii '': '' @ take 500 (content e) @ ascii ''...'')
                   (concat evidenceResults)))"

definition noRecommendations :: string where
  "noRecommendations = ''LLM returned no recommendations''"

definition getLLMRecommendationSuggestions ::
  "World \<Rightarrow> AssessmentInput \<Rightarrow> jsstring \<Rightarrow> TriageResult \<Rightarrow> jsstring list
     \<Rightarrow> FormularyDrug list \<Rightarrow> FormularyDrug option \<Rightarrow> Contraindication list
     \<Rightarrow> string + LLMRecommendation list" where
  "getLLMRecommendationSuggestions W assessment currentDrug triage evidence formularyOptions
       currentFormularyDrug contraindications =
    (case recommendationLLM W assessment currentDrug triage evidence formularyOptions
            currentFormularyDrug contraindications of
       RecsThrows message \<Rightarrow> Inl message
     | ParsedArray parsed \<Rightarrow> if parsed = [] then Inl noRecommendations else Inr parsed
     | ParsedObject field \<Rightarrow>
         (case field of
            FieldFalsy \<Rightarrow> Inl noRecommendations
          | FieldNotArray \<Rightarrow> Inl noRecommendations
          | FieldArray rs \<Rightarrow> if rs = [] then Inl noRecommendations else Inr rs))"

text \<open>\<open>a || b\<close> on a tier and on a prior-authorization text.\<close>

definition orElseTier :: "int option \<Rightarrow> int option \<Rightarrow> int option" where
  "orElseTier a b = (case a of None \<Rightarrow> b | Some n \<Rightarrow> if n = 0 then b else a)"

definition orElseStr :: "'a list option \<Rightarrow> 'a list option \<Rightarrow> 'a list option" where
  "orElseStr a b = (if truthyStr a then a else b)"

text \<open>The function mapped over the recommendations in step 4.\<close>

definition formatRecommendation ::
  "builtins \<Rightarrow> FormularyDrug list \<Rightarrow> jsstring \<Rightarrow> FormularyDrug option \<Rightarrow> jsstring list
     \<Rightarrow> LLMRecommendation \<Rightarrow> Recommendation" where
  "formatRecommendation B drugs genericDrugName currentFormularyDrug evidence r =
    (let targetDrug =
           (if truthyStr (rec_drugName r) then
              find (\<lambda>d. Some (toLowerCase B (fd_drugName d))
                           = map_option (toLowerCase B) (rec_drugName r)) drugs
            else None)
     in \<lparr> r_rank = rec_rank r,
          r_type = rec_type r,
          r_drugName =
            (case rec_drugName r of
               None \<Rightarrow> genericDrugName
             | Some name \<Rightarrow> if name = [] then genericDrugName else name),
          r_newDose = rec_newDose r,
          r_newFrequency = rec_newFrequency r,
          r_costs = calculateCostSavings B r currentFormularyDrug targetDrug,
          r_rationale = rec_rationale r,
          r_evidenceSources = map (takeWhile (\<lambda>c. c \<noteq> 58)) (take 3 evidence),
          r_monitoringPlan = rec_monitoringPlan r,
          r_tier = orElseTier (map_option fd_tier targetDrug)
                     (map_option fd_tier currentFormularyDrug),
          r_requiresPA = orElseStr (Option.bind targetDrug fd_requiresPA)
                           (Option.bind currentFormularyDrug fd_requiresPA),
          r_contraindicated = False \<rparr>)"

definition generateLLMRecommendations ::
  "builtins \<Rightarrow> World \<Rightarrow> AssessmentInput \<Rightarrow> string + GenerationResult" where
  "generateLLMRecommendations B W assessment =
    (case findPatient W (patientId assessment) of
       None \<Rightarrow> Inl ''Patient or plan not found''
     | Some patient \<Rightarrow>
     (case p_plan patient of
       None \<Rightarrow> Inl ''Patient or plan not found''
     | Some plan \<Rightarrow>
     (case p_currentBiologics patient of
       [] \<Rightarrow> Inl ''No current biologic found for patient''
     | currentBiologic # _ \<Rightarrow>
     (let genericDrugName = normalizeToGeneric W (cb_drugName currentBiologic);
          currentFormularyDrug =
            find (\<lambda>drug. toLowerCase B (fd_drugName drug) = toLowerCase B genericDrugName)
              (formularyDrugs plan)
      in
     (case triagePatient W assessment genericDrugName currentFormularyDrug of
       Inl message \<Rightarrow> Inl message
     | Inr triage \<Rightarrow>
     (case retrieveRelevantEvidence W genericDrugName (diagnosis assessment) triage of
       Inl message \<Rightarrow> Inl message
     | Inr evidence \<Rightarrow>
     (case getLLMRecommendationSuggestions W assessment genericDrugName triage evidence
             (formularyDrugs plan) currentFormularyDrug (p_contraindications patient) of
       Inl message \<Rightarrow> Inl message
     | Inr llmRecs \<Rightarrow>
         Inr \<lparr> isStable = canDoseReduce triage,
               isFormularyOptimal = (\<not> truthyVal (shouldSwitch triage)),
               g_quadrant = quadrant triage,
               recommendations =
                 take 3 (map (formatRecommendation B (formularyDrugs plan) genericDrugName
                                currentFormularyDrug evidence) llmRecs) \<rparr>)))))))"

section \<open>The assessment endpoint\<close>

record RequestBody =
  b_patientId :: string
  b_diagnosis :: jsstring
  b_hasPsoriaticArthritis :: "bool option"
  b_dlqiScore :: jsval
  b_monthsStable :: jsval
  b_additionalNotes :: "string option"

record PostOutcome =
  post_response :: response
  post_assessmentCreated :: bool
  post_recommendationsSaved :: "Recommendation list"

definition isInr :: "'a + 'b \<Rightarrow> bool" where
  "isInr x = (case x of Inl _ \<Rightarrow> False | Inr _ \<Rightarrow> True)"

text \<open>
  \<open>POST\<close>, on the outcome of \<open>request.json()\<close>. Every exception inside the handler
  reaches the one \<open>catch\<close>, which answers with status 500 and the message.
\<close>

definition POST :: "builtins \<Rightarrow> World \<Rightarrow> string + RequestBody \<Rightarrow> PostOutcome" where
  "POST B W request =
    (case request of
       Inl message \<Rightarrow>
         \<lparr> post_response = errorResponse 500 message, post_assessmentCreated = False,
           post_recommendationsSaved = [] \<rparr>
     | Inr b \<Rightarrow>
     (let input = \<lparr> patientId = b_patientId b,
                    diagnosis = b_diagnosis b,
                    hasPsoriaticArthritis =
                      (case b_hasPsoriaticArthritis b of None \<Rightarrow> False | Some h \<Rightarrow> h),
                    dlqiScore = toNumber B (b_dlqiScore b),
                    monthsStable = toNumber B (b_monthsStable b),
                    additionalNotes = b_additionalNotes b \<rparr>
      in
     (case assessmentCreate W input of
       Inl message \<Rightarrow>
         \<lparr> post_response = errorResponse 500 message, post_assessmentCreated = False,
           post_recommendationsSaved = [] \<rparr>
     | Inr assessmentId \<Rightarrow>
     (let useLLM = truthyStr (OPENAI_API_KEY W);
          result = (if useLLM then generateLLMRecommendations B W input
                    else generateRecommendations W input)
      in
     (case result of
       Inl message \<Rightarrow>
         \<lparr> post_response = errorResponse 500 message, post_assessmentCreated = True,
           post_recommendationsSaved = [] \<rparr>
     | Inr res \<Rightarrow>
     (let saves = map (recommendationCreate W assessmentId) (recommendations res);
          saved = filter (\<lambda>r. isInr (recommendationCreate W assessmentId r))
                    (recommendations res)
      in
     (case promiseAll saves of
       Inl message \<Rightarrow>
         \<lparr> post_response = errorResponse 500 message, post_assessmentCreated = True,
           post_recommendationsSaved = saved \<rparr>
     | Inr _ \<Rightarrow>
         \<lparr> post_response = \<lparr> status = 200, body = SuccessAssessment assessmentId \<rparr>,
           post_assessmentCreated = True,
           post_recommendationsSaved = saved \<rparr>)))))))"

section \<open>What the claims speak of\<close>

text \<open>The aliases of a field, and whether one of them occurs among the normalized
  headers: the headers "contain the column".\<close>

definition aliasesOf :: "string \<Rightarrow> jsstring list" where
  "aliasesOf field = (case map_of columnMappings field of None \<Rightarrow> [] | Some aliases \<Rightarrow> aliases)"

definition hasColumn :: "builtins \<Rightarrow> jsstring list \<Rightarrow> string \<Rightarrow> bool" where
  "hasColumn B headers field =
    list_ex (\<lambda>alias. alias \<in> set (map (normalizeColumnName B) headers)) (aliasesOf field)"

text \<open>The rows of a batch that are objects, in their order.\<close>

fun objectRows :: "row list \<Rightarrow> (jsstring \<times> jsval) list list" where
  "objectRows [] = []"
| "objectRows (NotAnObject # rs) = objectRows rs"
| "objectRows (Obj kvs # rs) = kvs # objectRows rs"

text \<open>
  The tier as the claim describes it, from the cell of the tier column (\<open>None\<close> when
  the headers have no tier column): 3 when the column is absent, when the cell is
  \<open>undefined\<close>, \<open>null\<close> or the empty string, or when its conversion to a number is
  \<open>NaN\<close>; otherwise that number, whatever it is.
\<close>

definition describedTier :: "builtins \<Rightarrow> jsval option \<Rightarrow> jsnum" where
  "describedTier B c =
    (case c of
       None \<Rightarrow> Num 3
     | Some Undefined \<Rightarrow> Num 3
     | Some Null \<Rightarrow> Num 3
     | Some (Bool b) \<Rightarrow> (if b then Num 1 else Num 0)
     | Some (Number t) \<Rightarrow> (if t = NaN then Num 3 else t)
     | Some (Str s) \<Rightarrow>
         (if s = [] \<or> stringToNumber B s = NaN then Num 3 else stringToNumber B s))"

section \<open>Sample inputs\<close>

text \<open>
  An instance of the library functions, for running the examples. It agrees with
  JavaScript where the examples use it: \<open>Number\<close> on a string of decimal digits with
  white space around it, and on \<open>n/a\<close>, which is not a numeric literal; \<open>String\<close> on a
  non-finite number and on a natural number; \<open>toLowerCase\<close> on a string of ASCII
  characters and white space; the \<open>Decimal\<close> operations where the exact result has at
  most 20 significant digits. Outside of these it is not meant to follow the language.
\<close>

definition isDigit :: "int \<Rightarrow> bool" where
  "isDigit c = (48 \<le> c \<and> c \<le> 57)"

definition sampleStringToNumber :: "jsstring \<Rightarrow> jsnum" where
  "sampleStringToNumber s =
    (let t = trim s in
     if t = [] then Num 0
     else if list_all isDigit t then
       roundDouble (of_int (foldl (\<lambda>a c. 10 * a + (c - 48)) 0 t))
     else NaN)"

function natToString :: "nat \<Rightarrow> jsstring" where
  "natToString n =
    (if n < 10 then [48 + int n] else natToString (n div 10) @ [48 + int (n mod 10)])"
  by pat_completeness auto
termination
  by (relation "measure id") auto

definition sampleNumberToString :: "jsnum \<Rightarrow> jsstring" where
  "sampleNumberToString n =
    (case n of
       NaN \<Rightarrow> ascii ''NaN''
     | PosInfinity \<Rightarrow> ascii ''Infinity''
     | NegInfinity \<Rightarrow> ascii ''-Infinity''
     | Num q \<Rightarrow> if 0 \<le> q \<and> q = of_int \<lfloor>q\<rfloor> then natToString (nat \<lfloor>q\<rfloor>) else [])"

definition sampleToLowerCase :: "jsstring \<Rightarrow> jsstring" where
  "sampleToLowerCase s = map (\<lambda>c. if 65 \<le> c \<and> c \<le> 90 then c + 32 else c) s"

definition sampleBuiltins :: builtins where
  "sampleBuiltins =
    \<lparr> numberToString = sampleNumberToString, stringToNumber = sampleStringToNumber,
      toLowerCase = sampleToLowerCase, decimalDiv = (\<lambda>x y. x / y),
      decimalMul = (\<lambda>x y. x * y) \<rparr>"

text \<open>Two drugs of one plan, at the prices of the specification's example, and a drug
  at a price with cents.\<close>

definition humira :: FormularyDrug where
  "humira = \<lparr> fd_drugName = ascii ''Humira'', fd_drugClass = ''TNF_INHIBITOR'', fd_tier = 3,
      fd_requiresPA = Some ''Yes'', fd_annualCostWAC = Some 44000,
      fd_memberCopayT1 = Some 600 \<rparr>"

definition amjevita :: FormularyDrug where
  "amjevita = \<lparr> fd_drugName = ascii ''Amjevita'', fd_drugClass = ''TNF_INHIBITOR'',
      fd_tier = 1, fd_requiresPA = None, fd_annualCostWAC = Some 30000,
      fd_memberCopayT1 = Some 300 \<rparr>"



definition switchToAmjevita :: LLMRecommendation where
  "switchToAmjevita = \<lparr> rec_type = SWITCH_TO_BIOSIMILAR,
      rec_drugName = Some (ascii ''Amjevita''),
      rec_newDose = None, rec_newFrequency = None,
      rec_rationale = ''biosimilar on a lower tier'', rec_monitoringPlan = None,
      rec_rank = 1 \<rparr>"

text \<open>A patient on Humira and a patient with no biologic on record, in the same plan.\<close>

definition samplePlan :: InsurancePlan where
  "samplePlan = \<lparr> formularyDrugs = [humira, amjevita] \<rparr>"

definition patientOnHumira :: Patient where
  "patientOnHumira = \<lparr> p_currentBiologics = [\<lparr> cb_drugName = ascii ''Humira'' \<rparr>],
      p_contraindications = [], p_plan = Some samplePlan \<rparr>"

definition patientWithoutBiologic :: Patient where
  "patientWithoutBiologic = \<lparr> p_currentBiologics = [], p_contraindications = [],
      p_plan = Some samplePlan \<rparr>"

text \<open>A stable patient: DLQI 2, stable for 12 months.\<close>

definition stableAssessment :: AssessmentInput where
  "stableAssessment = \<lparr> patientId = ''p1'', diagnosis = ascii ''PSORIASIS'',
      hasPsoriaticArthritis = False, dlqiScore = Num 2, monthsStable = Num 12,
      additionalNotes = None \<rparr>"

definition stableRequest :: RequestBody where
  "stableRequest = \<lparr> b_patientId = ''p1'', b_diagnosis = ascii ''PSORIASIS'',
      b_hasPsoriaticArthritis = None, b_dlqiScore = Number (Num 2),
      b_monthsStable = Number (Num 12), b_additionalNotes = None \<rparr>"

text \<open>A reply of the model that declines dose reduction.\<close>

definition cautiousTriage :: TriageResult where
  "cautiousTriage = \<lparr> canDoseReduce = Bool False, shouldSwitch = Bool True,
      quadrant = Str (ascii ''stable_non_formulary''),
      reasoning = Str (ascii ''recent flare in the notes'') \<rparr>"

text \<open>What the rule-based generator would answer for the patient on Humira.\<close>

definition ruleBasedResult :: GenerationResult where
  "ruleBasedResult = \<lparr> isStable = Bool True, isFormularyOptimal = False,
      g_quadrant = Str (ascii ''stable_non_formulary''),
      recommendations =
        [formatRecommendation sampleBuiltins [humira, amjevita] (ascii ''Humira'')
           (Some humira) [] switchToAmjevita] \<rparr>"

text \<open>
  A world with an API key, in which the model answers the recommendation prompt with
  an object that has no recommendations, as the empty content \<open>{}\<close> does.
\<close>

definition emptyReplyWorld :: World where
  "emptyReplyWorld =
    \<lparr> OPENAI_API_KEY = Some ''sk-test'',
      findPatient = (\<lambda>i. if i = ''p1'' then Some patientOnHumira
                          else if i = ''p2'' then Some patientWithoutBiologic else None),
      normalizeToGeneric = (\<lambda>name. name),
      triageLLM = (\<lambda>assessment drug formulary. TriageParsed cautiousTriage),
      searchKnowledge = (\<lambda>query limit. Inr []),
      recommendationLLM =
        (\<lambda>assessment drug triage evidence options current contra. ParsedObject FieldFalsy),
      generateRecommendations = (\<lambda>assessment. Inr ruleBasedResult),
      assessmentCreate = (\<lambda>assessment. Inr ''a1''),
      recommendationCreate = (\<lambda>assessmentId r. Inr ()) \<rparr>"

text \<open>
  Formulary batches: six rows with a tier column, whose cells are a numeral, a text,
  a numeral outside the tier range, \<open>null\<close>, the empty string and a number; a batch
  whose second element is \<open>null\<close>; a batch without a drug name; and a batch whose
  headers hold a no-break space and a byte-order mark.
\<close>

definition tierBatch :: "row list" where
  "tierBatch =
    [Obj [(ascii ''Drug Name'', Str (ascii ''Humira'')), (ascii ''Tier'', Str (ascii ''2''))],
     Obj [(ascii ''Drug Name'', Str (ascii ''Amjevita'')), (ascii ''Tier'', Str (ascii ''n/a''))],
     Obj [(ascii ''Drug Name'', Str (ascii ''Stelara'')), (ascii ''Tier'', Str (ascii ''9''))],
     Obj [(ascii ''Drug Name'', Str (ascii ''Cosentyx'')), (ascii ''Tier'', Null)],
     Obj [(ascii ''Drug Name'', Str (ascii ''Taltz'')), (ascii ''Tier'', Str [])],
     Obj [(ascii ''Drug Name'', Str (ascii ''Skyrizi'')), (ascii ''Tier'', Number (Num (- 1)))]]"

definition mixedBatch :: "row list" where
  "mixedBatch = [Obj [(ascii ''Drug Name'', Str (ascii ''Humira''))], NotAnObject]"

definition namelessBatch :: "row list" where
  "namelessBatch =
    [Obj [(ascii ''Product'', Str (ascii ''Humira'')), (ascii ''Tier'', Str (ascii ''2''))],
     Obj [(ascii ''Product'', Str (ascii ''Amjevita'')), (ascii ''Tier'', Str (ascii ''1''))]]"

definition exportedBatch :: "row list" where
  "exportedBatch =
    [Obj [(65279 # ascii ''Drug'' @ 160 # ascii ''Name'', Str (ascii ''Humira'')),
          (ascii ''Tier'' @ [160], Str (ascii ''2''))]]"

definition sampleDatabase :: Database where
  "sampleDatabase = \<lparr> tbl_knowledgeDocument = {''k1''}, tbl_formularyDrug = {''f1'', ''f2''},
      tbl_pharmacyClaim = {''c1''}, tbl_uploadLog = {''u1''} \<rparr>"

section \<open>Properties of the rounding to doubles\<close>

text \<open>
  The exponent function is the binary logarithm rounded down, and a number that has
  at most 53 significant bits at an exponent within the range of the format is a
  double: rounding leaves it as it is. In particular the integers below \<open>2^53\<close> in
  magnitude and their quarters are doubles.
\<close>

lemma pow2_powi: "pow2 e = 2 powi e"
  by (simp add: pow2_def power_int_def inverse_eq_divide power_one_over)

lemma pow2_pos: "0 < pow2 e"
  by (simp add: pow2_powi)

lemma pow2_add: "pow2 (a + b) = pow2 a * pow2 b"
  by (simp add: pow2_powi power_int_add)

lemma pow2_mono: "a \<le> b \<Longrightarrow> pow2 a \<le> pow2 b"
  by (simp add: pow2_powi power_int_increasing)

lemma pow2_strict_mono: "a < b \<Longrightarrow> pow2 a < pow2 b"
  by (simp add: pow2_powi power_int_strict_increasing)

lemma pow2_less_cancel: "pow2 a < pow2 b \<Longrightarrow> a < b"
  using pow2_mono [of b a] by (cases "a < b") auto

lemma pow2_nat: "0 \<le> e \<Longrightarrow> pow2 e = of_int (2 ^ nat e)"
  by (simp add: pow2_def)

lemma of_int_bitlen:
  assumes "0 < a"
  shows "pow2 (bitlen a - 1) \<le> of_int a" and "of_int a < pow2 (bitlen a)"
proof -
  from assms have b: "1 \<le> bitlen a" by (auto simp: bitlen_alt_def)
  from bitlen_bounds [OF assms]
  have lo: "2 ^ nat (bitlen a - 1) \<le> a" and hi: "a < 2 ^ nat (bitlen a)" by auto
  from lo have "(of_int (2 ^ nat (bitlen a - 1)) :: rat) \<le> of_int a"
    by (simp only: of_int_le_iff)
  then show "pow2 (bitlen a - 1) \<le> of_int a" using b by (simp add: pow2_nat)
  from hi have "(of_int a :: rat) < of_int (2 ^ nat (bitlen a))"
    by (simp only: of_int_less_iff)
  then show "of_int a < pow2 (bitlen a)" using b by (simp add: pow2_nat)
qed

lemma floorLog2_bounds:
  assumes "0 < q"
  shows "pow2 (floorLog2 q) \<le> q \<and> q < pow2 (floorLog2 q + 1)"
proof -
  obtain a b where ab: "quotient_of q = (a, b)" by (cases "quotient_of q")
  then have bpos: "0 < b" and q: "q = of_int a / of_int b"
    by (auto dest: quotient_of_denom_pos quotient_of_div)
  from assms q bpos have apos: "0 < a"
    by (simp add: zero_less_divide_iff)
  let ?d = "bitlen a - bitlen b"
  note A = of_int_bitlen [OF apos] and B = of_int_bitlen [OF bpos]
  have bq: "(0::rat) < of_int b" using bpos by simp
  have lower: "pow2 (?d - 1) \<le> q"
  proof -
    have "pow2 (?d - 1) * of_int b \<le> pow2 (?d - 1) * pow2 (bitlen b)"
      using B(2) pow2_pos [of "?d - 1"] by (simp add: less_imp_le)
    also have "\<dots> = pow2 (bitlen a - 1)"
      using pow2_add [of "?d - 1" "bitlen b"] by simp
    also have "\<dots> \<le> of_int a" by (rule A(1))
    finally show ?thesis using bq by (simp add: q pos_le_divide_eq)
  qed
  have upper: "q < pow2 (?d + 1)"
  proof -
    have "of_int a < pow2 (bitlen a)" by (rule A(2))
    also have "\<dots> = pow2 (?d + 1) * pow2 (bitlen b - 1)"
      using pow2_add [of "?d + 1" "bitlen b - 1"] by simp
    also have "\<dots> \<le> pow2 (?d + 1) * of_int b"
      using B(1) pow2_pos [of "?d + 1"] by simp
    finally show ?thesis using bq by (simp add: q pos_divide_less_eq)
  qed
  show ?thesis
  proof (cases "pow2 ?d \<le> q")
    case True
    then have "floorLog2 q = ?d" by (simp add: floorLog2_def ab)
    with True upper show ?thesis by simp
  next
    case False
    then have "floorLog2 q = ?d - 1" by (simp add: floorLog2_def ab)
    with False lower show ?thesis by simp
  qed
qed

lemma roundHalfEven_of_int: "roundHalfEven (of_int n) = n"
  by (simp add: roundHalfEven_def)


lemma roundDouble_exact:
  assumes m: "\<bar>m\<bar> < 2 ^ 53" and lo: "- 1074 \<le> e" and hi: "e \<le> 971"
  shows "roundDouble (of_int m * pow2 e) = Num (of_int m * pow2 e)"
proof (cases "m = 0")
  case True
  then show ?thesis by (simp add: roundDouble_def)
next
  case False
  let ?q = "of_int m * pow2 e :: rat"
  have q0: "?q \<noteq> 0" using False pow2_pos [of e] by simp
  have absq: "\<bar>?q\<bar> = of_int \<bar>m\<bar> * pow2 e"
    using pow2_pos [of e] by (simp add: abs_mult)
  have qpos: "0 < \<bar>?q\<bar>" using q0 by simp
  define k where "k = floorLog2 \<bar>?q\<bar>"
  define E where "E = max (k - 52) (- 1074)"
  from floorLog2_bounds [OF qpos] have kb: "pow2 k \<le> \<bar>?q\<bar>" by (simp add: k_def)
  have "(of_int \<bar>m\<bar> :: rat) < of_int (2 ^ 53)" using m by (simp only: of_int_less_iff)
  then have "(of_int \<bar>m\<bar> :: rat) < pow2 53" by (simp add: pow2_def)
  then have "\<bar>?q\<bar> < pow2 53 * pow2 e"
    unfolding absq using pow2_pos [of e] by simp
  then have "\<bar>?q\<bar> < pow2 (53 + e)" by (simp add: pow2_add)
  with kb have "pow2 k < pow2 (53 + e)" by simp
  then have "k < 53 + e" by (rule pow2_less_cancel)
  with lo have Ee: "E \<le> e" by (simp add: E_def)
  define M where "M = \<bar>m\<bar> * 2 ^ nat (e - E)"
  have split: "pow2 e = pow2 (e - E) * pow2 E"
    using pow2_add [of "e - E" E] by simp
  have shift: "pow2 (e - E) = of_int (2 ^ nat (e - E))"
    using Ee by (simp add: pow2_nat)
  have quot: "\<bar>?q\<bar> / pow2 E = of_int M"
  proof -
    have "\<bar>?q\<bar> / pow2 E = of_int \<bar>m\<bar> * (pow2 (e - E) * pow2 E) / pow2 E"
      by (simp only: absq split [symmetric])
    also have "\<dots> = of_int \<bar>m\<bar> * pow2 (e - E)"
      using pow2_pos [of E] by simp
    also have "\<dots> = of_int M" by (simp add: shift M_def)
    finally show ?thesis .
  qed
  have rnd: "roundHalfEven (\<bar>?q\<bar> / pow2 E) = M"
    unfolding quot by (rule roundHalfEven_of_int)
  have unscale: "of_int M * pow2 E = \<bar>?q\<bar>"
    using quot pow2_pos [of E] by (simp add: field_simps)
  have noover: "\<not> (971 < E \<or> (E = 971 \<and> 2 ^ 53 \<le> M))"
  proof
    assume "971 < E \<or> (E = 971 \<and> 2 ^ 53 \<le> M)"
    with Ee hi have "E = 971" "e = 971" "2 ^ 53 \<le> M" by auto
    then have "2 ^ 53 \<le> \<bar>m\<bar>" by (simp add: M_def)
    with m show False by simp
  qed
  have sign: "(if 0 < ?q then 1 else - 1) * \<bar>?q\<bar> = ?q"
    using q0 by (auto simp add: abs_if)
  have "roundDouble ?q = Num ((if 0 < ?q then 1 else - 1) * of_int M * pow2 E)"
    using q0 noover rnd
    by (simp add: roundDouble_def Let_def k_def [symmetric] E_def [symmetric])
  also have "(if 0 < ?q then 1 else - 1) * of_int M * pow2 E
      = (if 0 < ?q then 1 else - 1) * \<bar>?q\<bar>"
    using unscale by (simp add: mult.assoc)
  also have "\<dots> = ?q" by (rule sign)
  finally show ?thesis .
qed

lemma roundDouble_of_int: "\<bar>n\<bar> < 2 ^ 53 \<Longrightarrow> roundDouble (of_int n) = Num (of_int n)"
  using roundDouble_exact [of n 0] by (simp add: pow2_def)


text \<open>
  The rounding at some values: one tenth and one third, which are no doubles; the
  product of the double of 0.1 with 0.75, which JavaScript prints as
  0.07500000000000001; and two integers half-way between neighbouring doubles, which
  go to the neighbour with the even significand.
\<close>

lemma roundDouble_examples:
  "roundDouble (1 / 10) = Num (3602879701896397 / 36028797018963968)"
  "roundDouble (1 / 3) = Num (6004799503160661 / 18014398509481984)"
  "fmul (Num (3602879701896397 / 36028797018963968)) (Num (3 / 4))
     = Num (1351079888211149 / 18014398509481984)"
  "roundDouble (2 ^ 53 + 1) = Num (2 ^ 53)"
  "roundDouble (2 ^ 53 + 3) = Num (2 ^ 53 + 4)"
  by code_simp+

section \<open>Properties of the cost calculator\<close>

lemma roundDouble_not_NaN: "roundDouble q \<noteq> NaN"
  by (simp add: roundDouble_def Let_def)

lemma truthy_decimal: "truthy (Some (decimalToNumber d)) \<longleftrightarrow> decimalToNumber d \<noteq> Num 0"
  by (simp add: truthy_def decimalToNumber_def roundDouble_not_NaN)




text \<open>
  The claim C3 as it is written reaches every switch in which both annual costs are
  present. It fails when one of them is 0. With a target cost of 0 the inner guard is
  falsy and the savings stay \<open>undefined\<close>, where the claim gives 44000 - 0; with a
  current cost of 0 the outer guard is falsy and the recommended cost stays
  \<open>undefined\<close>, where the claim gives the target's 30000. And the percent is computed
  in doubles: for 44000 and 30000 it is not the quotient 350/11.
\<close>

theorem switch_counterexample:
  "rec_type switchToAmjevita \<noteq> DOSE_REDUCTION
   \<and> fd_annualCostWAC humira = Some 44000
   \<and> fd_annualCostWAC (amjevita\<lparr>fd_annualCostWAC := Some 0\<rparr>) = Some 0
   \<and> annualSavings (calculateCostSavings sampleBuiltins switchToAmjevita (Some humira)
        (Some (amjevita\<lparr>fd_annualCostWAC := Some 0\<rparr>))) \<noteq> Some (Num (44000 - 0))
   \<and> fd_annualCostWAC (humira\<lparr>fd_annualCostWAC := Some 0\<rparr>) = Some 0
   \<and> fd_annualCostWAC amjevita = Some 30000
   \<and> recommendedAnnualCost (calculateCostSavings sampleBuiltins switchToAmjevita
        (Some (humira\<lparr>fd_annualCostWAC := Some 0\<rparr>)) (Some amjevita)) \<noteq> Some (Num 30000)
   \<and> savingsPercent (calculateCostSavings sampleBuiltins switchToAmjevita (Some humira)
        (Some amjevita)) \<noteq> Some (Num ((44000 - 30000) / 44000 * 100))"
  by code_simp

text \<open>
  C3, amended: for every recommendation other than a dose reduction, when the current
  drug's and the target drug's annual costs are both present and the current one is
  not zero, the recommended annual cost is the target's; when the target's is not zero
  either, the annual savings are current minus recommended and the savings percent is
  the savings divided by the current cost, times 100, each operation in double
  precision. For whole-number costs below \<open>2^52\<close> in magnitude the recommended cost
  and the savings are exact, and only the percent is rounded. The witness is the
  specification's example: 44000 and 30000 give 14000
  and the double 31.818181818181817 (the fraction below), which is 31.8 to one
  decimal.
\<close>

theorem switch_costs:
  assumes "rec_type recommendation \<noteq> DOSE_REDUCTION"
      and "fd_annualCostWAC currentDrug = Some current"
      and "decimalToNumber current \<noteq> Num 0"
      and "fd_annualCostWAC targetDrug = Some target"
  shows "recommendedAnnualCost
           (calculateCostSavings B recommendation (Some currentDrug) (Some targetDrug))
           = Some (decimalToNumber target)
       \<and> (decimalToNumber target \<noteq> Num 0 \<longrightarrow>
            annualSavings
              (calculateCostSavings B recommendation (Some currentDrug) (Some targetDrug))
              = Some (fsub (decimalToNumber current) (decimalToNumber target))
          \<and> savingsPercent
              (calculateCostSavings B recommendation (Some currentDrug) (Some targetDrug))
              = Some (fmul (fdiv (fsub (decimalToNumber current) (decimalToNumber target))
                                 (decimalToNumber current)) (Num 100)))
       \<and> (\<forall>c t. current = of_int c \<and> target = of_int t \<and> t \<noteq> 0
                \<and> \<bar>c\<bar> < 2 ^ 52 \<and> \<bar>t\<bar> < 2 ^ 52 \<longrightarrow>
            recommendedAnnualCost
              (calculateCostSavings B recommendation (Some currentDrug) (Some targetDrug))
              = Some (Num target)
          \<and> annualSavings
              (calculateCostSavings B recommendation (Some currentDrug) (Some targetDrug))
              = Some (Num (current - target))
          \<and> savingsPercent
              (calculateCostSavings B recommendation (Some currentDrug) (Some targetDrug))
              = Some (fmul (fdiv (Num (current - target)) (Num current)) (Num 100)))"
proof -
  let ?r = "calculateCostSavings B recommendation (Some currentDrug) (Some targetDrug)"
  from assms have rec: "recommendedAnnualCost ?r = Some (decimalToNumber target)"
    by (simp add: calculateCostSavings_def truthy_decimal Let_def)
  from assms have nonzero: "decimalToNumber target \<noteq> Num 0 \<longrightarrow>
      annualSavings ?r = Some (fsub (decimalToNumber current) (decimalToNumber target))
      \<and> savingsPercent ?r
          = Some (fmul (fdiv (fsub (decimalToNumber current) (decimalToNumber target))
                             (decimalToNumber current)) (Num 100))"
    by (simp add: calculateCostSavings_def truthy_decimal Let_def)
  have whole: "\<forall>c t. current = of_int c \<and> target = of_int t \<and> t \<noteq> 0
                \<and> \<bar>c\<bar> < 2 ^ 52 \<and> \<bar>t\<bar> < 2 ^ 52 \<longrightarrow>
      recommendedAnnualCost ?r = Some (Num target)
      \<and> annualSavings ?r = Some (Num (current - target))
      \<and> savingsPercent ?r
          = Some (fmul (fdiv (Num (current - target)) (Num current)) (Num 100))"
  proof (intro allI impI)
    fix c t :: int
    assume a: "current = of_int c \<and> target = of_int t \<and> t \<noteq> 0
                \<and> \<bar>c\<bar> < 2 ^ 52 \<and> \<bar>t\<bar> < 2 ^ 52"
    then have bc: "\<bar>c\<bar> < 2 ^ 53" by (simp; linarith)
    from a have bt: "\<bar>t\<bar> < 2 ^ 53" by (simp; linarith)
    from a have bd: "\<bar>c - t\<bar> < 2 ^ 53" by (simp; linarith)
    from a have cc: "current = of_int c" and tt: "target = of_int t" by blast+
    have dc: "decimalToNumber (of_int c) = Num (of_int c)"
      using roundDouble_of_int [OF bc] by (simp add: decimalToNumber_def)
    have dt: "decimalToNumber (of_int t) = Num (of_int t)"
      using roundDouble_of_int [OF bt] by (simp add: decimalToNumber_def)
    from a have "decimalToNumber target \<noteq> Num 0" by (simp add: dt)
    with nonzero have
      sv: "annualSavings ?r = Some (fsub (decimalToNumber current) (decimalToNumber target))"
      and pc: "savingsPercent ?r
          = Some (fmul (fdiv (fsub (decimalToNumber current) (decimalToNumber target))
                             (decimalToNumber current)) (Num 100))"
      by blast+
    have "fsub (Num (of_int c)) (Num (of_int t)) = roundDouble (of_int c - of_int t)"
      by (simp add: fsub_def)
    also have "\<dots> = roundDouble (of_int (c - t))" by simp
    also have "\<dots> = Num (of_int (c - t))" by (rule roundDouble_of_int [OF bd])
    also have "\<dots> = Num (of_int c - of_int t)" by simp
    finally have sub: "fsub (Num (of_int c)) (Num (of_int t)) = Num (of_int c - of_int t)" .
    have "recommendedAnnualCost ?r = Some (Num target)"
      by (simp only: rec tt dt)
    moreover have "annualSavings ?r = Some (Num (current - target))"
      by (simp only: sv cc tt dc dt sub)
    moreover have "savingsPercent ?r
          = Some (fmul (fdiv (Num (current - target)) (Num current)) (Num 100))"
      by (simp only: pc cc tt dc dt sub)
    ultimately show "recommendedAnnualCost ?r = Some (Num target)
      \<and> annualSavings ?r = Some (Num (current - target))
      \<and> savingsPercent ?r
          = Some (fmul (fdiv (Num (current - target)) (Num current)) (Num 100))"
      by blast
  qed
  from rec nonzero whole show ?thesis by blast
qed

theorem switch_costs_witness:
  "rec_type switchToAmjevita \<noteq> DOSE_REDUCTION
   \<and> fd_annualCostWAC humira = Some 44000 \<and> decimalToNumber 44000 \<noteq> Num 0
   \<and> fd_annualCostWAC amjevita = Some 30000 \<and> decimalToNumber 30000 \<noteq> Num 0
   \<and> recommendedAnnualCost
        (calculateCostSavings sampleBuiltins switchToAmjevita (Some humira) (Some amjevita))
       = Some (Num 30000)
   \<and> annualSavings
        (calculateCostSavings sampleBuiltins switchToAmjevita (Some humira) (Some amjevita))
       = Some (Num 14000)
   \<and> savingsPercent
        (calculateCostSavings sampleBuiltins switchToAmjevita (Some humira) (Some amjevita))
       = Some (Num (8956021986248145 / 281474976710656))
   \<and> \<bar>8956021986248145 / 281474976710656 - 31.8\<bar> < (0.05::rat)"
proof -
  have t: "rec_type switchToAmjevita \<noteq> DOSE_REDUCTION" by (simp add: switchToAmjevita_def)
  have c: "fd_annualCostWAC humira = Some 44000" by (simp add: humira_def)
  have k: "fd_annualCostWAC amjevita = Some 30000" by (simp add: amjevita_def)
  have n: "decimalToNumber 44000 \<noteq> Num 0" "decimalToNumber 30000 \<noteq> Num 0" by code_simp+
  have r: "decimalToNumber 30000 = Num 30000" by code_simp
  have s: "fsub (decimalToNumber 44000) (decimalToNumber 30000) = Num 14000" by code_simp
  have p: "fmul (fdiv (Num 14000) (decimalToNumber 44000)) (Num 100)
             = Num (8956021986248145 / 281474976710656)"
    by code_simp
  have a: "\<bar>8956021986248145 / 281474976710656 - 31.8\<bar> < (0.05::rat)" by simp
  show ?thesis
    using switch_costs [OF t c n(1) k, of sampleBuiltins] t c k n r s p a by simp
qed

text \<open>
  C4: when the current drug is absent, or its annual cost is missing or zero, the three
  savings fields are \<open>undefined\<close>, for every recommendation and every target drug. The
  calculator has no failing operation: each read goes through optional chaining, and
  the division by the current cost is behind the guard that fails here; so the model
  is a total function with no error result.
\<close>

theorem no_current_cost_undefined:
  assumes "currentDrug = None
         \<or> (\<exists>d. currentDrug = Some d
                \<and> (fd_annualCostWAC d = None \<or> fd_annualCostWAC d = Some 0))"
  shows "recommendedAnnualCost (calculateCostSavings B recommendation currentDrug targetDrug) = None
       \<and> annualSavings (calculateCostSavings B recommendation currentDrug targetDrug) = None
       \<and> savingsPercent (calculateCostSavings B recommendation currentDrug targetDrug) = None"
  using assms
  by (auto simp add: calculateCostSavings_def truthy_def decimalToNumber_def roundDouble_def)

theorem no_current_cost_undefined_witness:
  "fd_annualCostWAC (humira\<lparr>fd_annualCostWAC := Some 0\<rparr>) = Some 0
   \<and> recommendedAnnualCost (calculateCostSavings sampleBuiltins switchToAmjevita
         (Some (humira\<lparr>fd_annualCostWAC := Some 0\<rparr>)) (Some amjevita)) = None
   \<and> annualSavings (calculateCostSavings sampleBuiltins switchToAmjevita
         (Some (humira\<lparr>fd_annualCostWAC := Some 0\<rparr>)) (Some amjevita)) = None
   \<and> savingsPercent (calculateCostSavings sampleBuiltins switchToAmjevita
         (Some (humira\<lparr>fd_annualCostWAC := Some 0\<rparr>)) (Some amjevita)) = None"
proof -
  have z: "fd_annualCostWAC (humira\<lparr>fd_annualCostWAC := Some 0\<rparr>) = Some 0" by simp
  then have "Some (humira\<lparr>fd_annualCostWAC := Some 0\<rparr>) = None
         \<or> (\<exists>d. Some (humira\<lparr>fd_annualCostWAC := Some 0\<rparr>) = Some d
                \<and> (fd_annualCostWAC d = None \<or> fd_annualCostWAC d = Some 0))"
    by blast
  from no_current_cost_undefined [OF this] z show ?thesis by blast
qed

section \<open>Properties of the admin endpoint\<close>

text \<open>
  The claim C9 as it is written names four resource types. For the fourth, \<open>uploads\<close>,
  \<open>DELETE\<close> has no case: the request falls to the default branch, the answer is the
  invalid-type error and the upload log keeps its record.
\<close>

theorem DELETE_uploads_counterexample:
  "''u1'' \<in> tbl_uploadLog sampleDatabase
   \<and> DELETE (Some ''uploads'') (Some ''u1'') sampleDatabase
       = (\<lparr> status = 400, body = ErrorMessage ''Invalid type'' \<rparr>, sampleDatabase)"
  by (simp add: DELETE_def sampleDatabase_def errorResponse_def)

text \<open>
  C9, amended: for each resource type among knowledge, formulary and claims, the admin
  DELETE endpoint, given that type and the id of a record of that table, deletes that
  record, leaves the other tables as they are, and responds with success; given the
  type uploads it responds with the invalid-type error and deletes nothing.
\<close>

theorem DELETE_supported_types:
  assumes "recordId \<noteq> []"
  shows "(recordId \<in> tbl_knowledgeDocument db \<longrightarrow>
            DELETE (Some ''knowledge'') (Some recordId) db
              = (\<lparr> status = 200, body = SuccessTrue \<rparr>,
                 db\<lparr>tbl_knowledgeDocument := tbl_knowledgeDocument db - {recordId}\<rparr>))
       \<and> (recordId \<in> tbl_formularyDrug db \<longrightarrow>
            DELETE (Some ''formulary'') (Some recordId) db
              = (\<lparr> status = 200, body = SuccessTrue \<rparr>,
                 db\<lparr>tbl_formularyDrug := tbl_formularyDrug db - {recordId}\<rparr>))
       \<and> (recordId \<in> tbl_pharmacyClaim db \<longrightarrow>
            DELETE (Some ''claims'') (Some recordId) db
              = (\<lparr> status = 200, body = SuccessTrue \<rparr>,
                 db\<lparr>tbl_pharmacyClaim := tbl_pharmacyClaim db - {recordId}\<rparr>))
       \<and> DELETE (Some ''uploads'') (Some recordId) db
              = (\<lparr> status = 400, body = ErrorMessage ''Invalid type'' \<rparr>, db)"
  using assms by (simp add: DELETE_def prismaDelete_def errorResponse_def)

theorem DELETE_supported_types_witness:
  "''f1'' \<noteq> [] \<and> ''f1'' \<in> tbl_formularyDrug sampleDatabase
   \<and> DELETE (Some ''formulary'') (Some ''f1'') sampleDatabase
       = (\<lparr> status = 200, body = SuccessTrue \<rparr>,
          \<lparr> tbl_knowledgeDocument = {''k1''}, tbl_formularyDrug = {''f2''},
            tbl_pharmacyClaim = {''c1''}, tbl_uploadLog = {''u1''} \<rparr>)"
proof -
  have n: "''f1'' \<noteq> []" by simp
  have m: "''f1'' \<in> tbl_formularyDrug sampleDatabase" by (simp add: sampleDatabase_def)
  have "tbl_formularyDrug sampleDatabase - {''f1''} = {''f2''}"
    by (auto simp add: sampleDatabase_def)
  with DELETE_supported_types [OF n, of sampleDatabase] m n show ?thesis
    by (simp add: sampleDatabase_def)
qed

section \<open>Properties of the formulary parser\<close>

subsection \<open>The column map\<close>

lemma indexOf_None: "indexOf ys x = None \<longleftrightarrow> x \<notin> set ys"
  by (induction ys) auto

lemma indexOf_mem: "indexOf ys x = Some i \<Longrightarrow> x \<in> set ys"
  using indexOf_None [of ys x] by auto

lemma firstAlias_None:
  "firstAlias hs ns as = None \<longleftrightarrow> (\<forall>a \<in> set as. a \<notin> set ns)"
  by (induction as) (auto simp: indexOf_None dest: indexOf_mem split: option.splits)

lemma fold_columns:
  "distinct (map fst xs) \<Longrightarrow>
   fold (\<lambda>(field, aliases) mapping.
           case f aliases of Some h \<Rightarrow> mapping(field \<mapsto> h) | None \<Rightarrow> mapping) xs m k =
   (case map_of xs k of
      None \<Rightarrow> m k
    | Some aliases \<Rightarrow> (case f aliases of Some h \<Rightarrow> Some h | None \<Rightarrow> m k))"
proof (induction xs arbitrary: m)
  case Nil
  then show ?case by simp
next
  case (Cons x xs)
  obtain field aliases where x: "x = (field, aliases)" by (cases x)
  from Cons.prems have d: "distinct (map fst xs)" and nf: "field \<notin> fst ` set xs"
    by (auto simp: x)
  have mo: "k = field \<Longrightarrow> map_of xs k = None"
    using nf by (simp add: map_of_eq_None_iff)
  show ?case
    using mo by (auto simp: x Cons.IH [OF d] split: option.splits)
qed

lemma distinct_columnMappings: "distinct (map fst columnMappings)"
  by (simp add: columnMappings_def)

lemma mapColumns_eq:
  "mapColumns B headers field =
    (case map_of columnMappings field of
       None \<Rightarrow> None
     | Some aliases \<Rightarrow> firstAlias headers (map (normalizeColumnName B) headers) aliases)"
  unfolding mapColumns_def Let_def
  by (simp add: fold_columns [OF distinct_columnMappings] split: option.splits)

lemma mapColumns_None: "mapColumns B headers field = None \<longleftrightarrow> \<not> hasColumn B headers field"
  by (auto simp add: mapColumns_eq hasColumn_def aliasesOf_def firstAlias_None list_ex_iff
        split: option.splits)

subsection \<open>The loop over the rows\<close>

lemma parseLoop_rows:
  "rows (parseLoop B cm planId data i ps es)
     = ps @ map (parseObject B cm planId) (objectRows data)"
  by (induction data arbitrary: i ps es rule: objectRows.induct) (simp_all add: parseRow_def)

lemma parseLoop_errors:
  "length (errors (parseLoop B cm planId data i ps es))
     = length es + length (filter (\<lambda>r. r = NotAnObject) data)"
  by (induction data arbitrary: i ps es rule: objectRows.induct) (simp_all add: parseRow_def)

lemma length_objectRows:
  "length (objectRows data) + length (filter (\<lambda>r. r = NotAnObject) data) = length data"
  by (induction data rule: objectRows.induct) simp_all

lemma parseLoop_count:
  "length (rows (parseLoop B cm planId data i ps es))
     + length (errors (parseLoop B cm planId data i ps es))
   = length data + length ps + length es"
  using length_objectRows [of data] by (simp add: parseLoop_rows parseLoop_errors)

lemma parseObject_tier:
  "pr_tier (parseObject B cm planId kvs)
     = describedTier B (map_option (getProp kvs) (cm ''tier''))"
proof (cases "cm ''tier''")
  case None
  then show ?thesis
    by (simp add: parseObject_def cell_def parseNumber_def toNumber_def describedTier_def)
next
  case (Some h)
  then show ?thesis
    by (cases "getProp kvs h")
       (simp_all add: parseObject_def cell_def parseNumber_def toNumber_def describedTier_def
          Let_def)
qed

lemma describedTier_not_NaN: "describedTier B c \<noteq> NaN"
  by (auto simp add: describedTier_def split: option.splits jsval.splits)

subsection \<open>The batch\<close>

text \<open>
  The claim C5 as it is written reaches every batch. It fails for the empty batch,
  which is answered by no row and one error, and for a batch of two rows without a
  drug-name column, which is answered by no row and one error as well.
\<close>

theorem batch_count_counterexample:
  "\<not> (length (rows (projr (parseFormularyCSV sampleBuiltins [] ''plan-1'')))
        + length (errors (projr (parseFormularyCSV sampleBuiltins [] ''plan-1'')))
      = length ([] :: row list))
   \<and> \<not> (length (rows (projr (parseFormularyCSV sampleBuiltins namelessBatch ''plan-1'')))
        + length (errors (projr (parseFormularyCSV sampleBuiltins namelessBatch ''plan-1'')))
      = length namelessBatch)"
  by code_simp

text \<open>
  C5, amended: for every batch that is not empty and whose first row is an object with
  a drug-name column among its headers, the parser returns, and the number of accepted
  rows plus the number of reported errors equals the number of input rows.
\<close>

theorem parse_count:
  assumes "hasColumn B (map fst kvs) ''drugName''"
  shows "\<exists>res. parseFormularyCSV B (Obj kvs # rest) planId = Inr res
           \<and> length (rows res) + length (errors res) = length (Obj kvs # rest)"
proof -
  from assms obtain h where "mapColumns B (map fst kvs) ''drugName'' = Some h"
    using mapColumns_None [of B "map fst kvs" "''drugName''"] by auto
  then have "parseFormularyCSV B (Obj kvs # rest) planId
      = Inr (parseLoop B (mapColumns B (map fst kvs)) planId (Obj kvs # rest) 0 [] [])"
    by (simp add: parseFormularyCSV_def Let_def)
  moreover have
    "length (rows (parseLoop B (mapColumns B (map fst kvs)) planId (Obj kvs # rest) 0 [] []))
      + length (errors (parseLoop B (mapColumns B (map fst kvs)) planId (Obj kvs # rest) 0 [] []))
      = length (Obj kvs # rest)"
    using parseLoop_count [of B "mapColumns B (map fst kvs)" planId "Obj kvs # rest" 0 "[]" "[]"]
    by simp
  ultimately show ?thesis by blast
qed

theorem parse_count_witness:
  "hasColumn sampleBuiltins (map fst [(ascii ''Drug Name'', Str (ascii ''Humira''))]) ''drugName''
   \<and> length (rows (projr (parseFormularyCSV sampleBuiltins mixedBatch ''plan-1''))) = 1
   \<and> map err_row (errors (projr (parseFormularyCSV sampleBuiltins mixedBatch ''plan-1''))) = [2]
   \<and> length (rows (projr (parseFormularyCSV sampleBuiltins mixedBatch ''plan-1'')))
       + length (errors (projr (parseFormularyCSV sampleBuiltins mixedBatch ''plan-1'')))
     = length mixedBatch"
proof -
  have h: "hasColumn sampleBuiltins (map fst [(ascii ''Drug Name'', Str (ascii ''Humira''))])
             ''drugName''"
    by code_simp
  have r: "length (rows (projr (parseFormularyCSV sampleBuiltins mixedBatch ''plan-1''))) = 1"
    by code_simp
  have e: "map err_row (errors (projr (parseFormularyCSV sampleBuiltins mixedBatch ''plan-1'')))
             = [2]"
    by code_simp
  from parse_count [OF h, of "[NotAnObject]" "''plan-1''"]
  have "length (rows (projr (parseFormularyCSV sampleBuiltins mixedBatch ''plan-1'')))
       + length (errors (projr (parseFormularyCSV sampleBuiltins mixedBatch ''plan-1'')))
     = length mixedBatch"
    by (auto simp add: mixedBatch_def)
  with h r e show ?thesis by blast
qed

text \<open>
  C7: for every batch whose first row is an object and whose headers contain no alias of
  the drug-name column, the parser returns no accepted row and exactly one error, with
  row number 0, whatever rows follow the first.
\<close>

theorem missing_drug_name_column:
  assumes "\<not> hasColumn B (map fst kvs) ''drugName''"
  shows \<open>parseFormularyCSV B (Obj kvs # rest) planId
           = Inr \<lparr> rows = [],
                   errors = [\<lparr> err_row = 0,
                               err_error =
                                 Literal ''Required column "Drug Name" not found'' \<rparr>] \<rparr>\<close>
  using assms by (simp add: parseFormularyCSV_def Let_def mapColumns_None)

theorem missing_drug_name_column_witness:
  \<open>\<not> hasColumn sampleBuiltins
        (map fst [(ascii ''Product'', Str (ascii ''Humira'')), (ascii ''Tier'', Str (ascii ''2''))])
        ''drugName''
   \<and> parseFormularyCSV sampleBuiltins namelessBatch ''plan-1''
       = Inr \<lparr> rows = [],
               errors = [\<lparr> err_row = 0,
                           err_error =
                             Literal ''Required column "Drug Name" not found'' \<rparr>] \<rparr>\<close>
proof -
  have h: "\<not> hasColumn sampleBuiltins
        (map fst [(ascii ''Product'', Str (ascii ''Humira'')), (ascii ''Tier'', Str (ascii ''2''))])
        ''drugName''"
    by code_simp
  from missing_drug_name_column [OF h, of
      "[Obj [(ascii ''Product'', Str (ascii ''Amjevita'')), (ascii ''Tier'', Str (ascii ''1''))]]"
      "''plan-1''"] h
  show ?thesis by (simp add: namelessBatch_def)
qed

subsection \<open>The tier\<close>

text \<open>
  C10: in a batch with a drug-name column every row that is an object is accepted,
  whatever its tier cell holds, and an error is reported only for an element that is
  not an object. The tier of each accepted row is the one the claim describes: 3 when
  the headers have no tier column, 3 when the cell is \<open>undefined\<close>, \<open>null\<close>, the empty
  string or converts to \<open>NaN\<close>, and otherwise the number the cell converts to. So the
  tier is always a number and never \<open>NaN\<close>, and no check restricts it: every number
  found in a tier cell, inside the range 1 to 5 or not, is the tier of an accepted row.
  The declared schema with its bounds 1 and 5 is never applied by the parser.
\<close>

theorem accepted_tier:
  assumes "hasColumn B (map fst first) ''drugName''"
  shows "\<exists>res. parseFormularyCSV B (Obj first # rest) planId = Inr res
      \<and> length (rows res) = length (objectRows (Obj first # rest))
      \<and> length (errors res) = length (filter (\<lambda>r. r = NotAnObject) rest)
      \<and> map pr_tier (rows res)
          = map (\<lambda>kvs. describedTier B
                         (map_option (getProp kvs) (mapColumns B (map fst first) ''tier'')))
              (objectRows (Obj first # rest))
      \<and> NaN \<notin> set (map pr_tier (rows res))
      \<and> (\<not> hasColumn B (map fst first) ''tier'' \<longrightarrow> set (map pr_tier (rows res)) = {Num 3})
      \<and> (\<forall>kvs h t. kvs \<in> set (objectRows (Obj first # rest))
            \<and> mapColumns B (map fst first) ''tier'' = Some h
            \<and> getProp kvs h = Number t \<and> t \<noteq> NaN
            \<longrightarrow> t \<in> set (map pr_tier (rows res)))"
proof -
  let ?cm = "mapColumns B (map fst first)"
  let ?data = "Obj first # rest"
  let ?tier = "\<lambda>kvs. describedTier B (map_option (getProp kvs) (?cm ''tier''))"
  define res where "res = parseLoop B ?cm planId ?data 0 [] []"
  from assms obtain h where "?cm ''drugName'' = Some h"
    using mapColumns_None [of B "map fst first" "''drugName''"] by auto
  then have parsed: "parseFormularyCSV B ?data planId = Inr res"
    by (simp add: parseFormularyCSV_def Let_def res_def)
  have rs: "rows res = map (parseObject B ?cm planId) (objectRows ?data)"
    unfolding res_def using parseLoop_rows [of B ?cm planId ?data 0 "[]" "[]"] by simp
  have len: "length (rows res) = length (objectRows ?data)"
    by (simp add: rs)
  have errs: "length (errors res) = length (filter (\<lambda>r. r = NotAnObject) rest)"
    unfolding res_def using parseLoop_errors [of B ?cm planId ?data 0 "[]" "[]"] by simp
  have tiers: "map pr_tier (rows res) = map ?tier (objectRows ?data)"
    by (simp add: rs parseObject_tier)
  have numeric: "NaN \<notin> set (map pr_tier (rows res))"
  proof
    assume "NaN \<in> set (map pr_tier (rows res))"
    then have "\<exists>kvs. NaN = ?tier kvs" unfolding tiers by auto
    then show False by (metis describedTier_not_NaN)
  qed
  have absent: "\<not> hasColumn B (map fst first) ''tier'' \<longrightarrow>
      set (map pr_tier (rows res)) = {Num 3}"
  proof
    assume "\<not> hasColumn B (map fst first) ''tier''"
    then have "?cm ''tier'' = None" by (simp add: mapColumns_None)
    then have "map pr_tier (rows res) = map (\<lambda>kvs. Num 3) (objectRows ?data)"
      unfolding tiers by (simp add: describedTier_def)
    then show "set (map pr_tier (rows res)) = {Num 3}" by auto
  qed
  have anynumber: "\<forall>kvs h t. kvs \<in> set (objectRows ?data) \<and> ?cm ''tier'' = Some h
            \<and> getProp kvs h = Number t \<and> t \<noteq> NaN
            \<longrightarrow> t \<in> set (map pr_tier (rows res))"
  proof (intro allI impI)
    fix kvs h t
    assume a: "kvs \<in> set (objectRows ?data) \<and> ?cm ''tier'' = Some h
            \<and> getProp kvs h = Number t \<and> t \<noteq> NaN"
    then have eq: "?tier kvs = t" by (simp add: describedTier_def)
    from a have mem: "kvs \<in> set (objectRows ?data)" by blast
    have img: "?tier kvs \<in> set (map ?tier (objectRows ?data))"
      unfolding set_map using mem by (rule imageI)
    from img [unfolded eq] show "t \<in> set (map pr_tier (rows res))" unfolding tiers .
  qed
  from parsed len errs tiers numeric absent anynumber show ?thesis by blast
qed

theorem accepted_tier_witness:
  "hasColumn sampleBuiltins
     (map fst [(ascii ''Drug Name'', Str (ascii ''Humira'')), (ascii ''Tier'', Str (ascii ''2''))])
     ''drugName''
   \<and> map pr_tier (rows (projr (parseFormularyCSV sampleBuiltins tierBatch ''plan-1'')))
       = [Num 2, Num 3, Num 9, Num 3, Num 3, Num (- 1)]
   \<and> errors (projr (parseFormularyCSV sampleBuiltins tierBatch ''plan-1'')) = []
   \<and> NaN \<notin> set (map pr_tier (rows (projr (parseFormularyCSV sampleBuiltins tierBatch ''plan-1''))))
   \<and> map pr_tier (rows (projr (parseFormularyCSV sampleBuiltins exportedBatch ''plan-1'')))
       = [Num 2]"
proof -
  let ?R = "parseFormularyCSV sampleBuiltins tierBatch ''plan-1''"
  have h: "hasColumn sampleBuiltins
     (map fst [(ascii ''Drug Name'', Str (ascii ''Humira'')), (ascii ''Tier'', Str (ascii ''2''))])
     ''drugName''"
    by code_simp
  have tiers: "map pr_tier (rows (projr ?R)) = [Num 2, Num 3, Num 9, Num 3, Num 3, Num (- 1)]"
    by code_simp
  have errs: "errors (projr ?R) = []" by code_simp
  have exported:
    "map pr_tier (rows (projr (parseFormularyCSV sampleBuiltins exportedBatch ''plan-1'')))
       = [Num 2]"
    by code_simp
  from accepted_tier [OF h, of "tl tierBatch" "''plan-1''"]
  have "NaN \<notin> set (map pr_tier (rows (projr ?R)))"
    by (auto simp add: tierBatch_def)
  with h tiers errs exported show ?thesis by blast
qed

section \<open>Properties of the decision engine\<close>

text \<open>
  The claim C6 as it is written makes \<open>canDoseReduce\<close> a function of the DLQI score
  and the months stable. \<open>triagePatient\<close> computes nothing from them: it puts them
  into the prompt and returns the reply of the model. For a patient with DLQI 2 who has
  been stable for 12 months, a reply that declines gives \<open>canDoseReduce = false\<close>.
\<close>

theorem triage_counterexample:
  "dlqiScore stableAssessment = Num 2 \<and> (2::rat) \<le> 5
   \<and> monthsStable stableAssessment = Num 12 \<and> (6::rat) \<le> 12
   \<and> triagePatient emptyReplyWorld stableAssessment (ascii ''Humira'') (Some humira) = Inr cautiousTriage
   \<and> canDoseReduce cautiousTriage \<noteq> Bool True"
  by (simp add: stableAssessment_def triagePatient_def emptyReplyWorld_def cautiousTriage_def)

text \<open>
  C6, amended: the triage classifier returns the parsed reply of the language model as
  it is, so \<open>canDoseReduce\<close> is the value that the reply holds, and the call throws when
  the request or the parsing of the reply throws. The policy "DLQI at most 5 and at
  least 6 months stable" is a sentence of the prompt; the code does not check the reply
  against it, and for every assessment every answer is possible.
\<close>

theorem triage_returns_reply:
  "(triageLLM W assessment currentDrug formularyDrug = TriageParsed reply \<longrightarrow>
      triagePatient W assessment currentDrug formularyDrug = Inr reply)
   \<and> (triageLLM W assessment currentDrug formularyDrug = TriageThrows message \<longrightarrow>
      triagePatient W assessment currentDrug formularyDrug = Inl message)
   \<and> (\<exists>W'. triagePatient W' assessment currentDrug formularyDrug = Inr answer)"
proof -
  have "triagePatient (W\<lparr>triageLLM := (\<lambda>a d f. TriageParsed answer)\<rparr>)
          assessment currentDrug formularyDrug = Inr answer"
    by (simp add: triagePatient_def)
  then have free: "\<exists>W'. triagePatient W' assessment currentDrug formularyDrug = Inr answer"
    by blast
  have parsed: "triageLLM W assessment currentDrug formularyDrug = TriageParsed reply \<longrightarrow>
      triagePatient W assessment currentDrug formularyDrug = Inr reply"
    by (simp add: triagePatient_def)
  have thrown: "triageLLM W assessment currentDrug formularyDrug = TriageThrows message \<longrightarrow>
      triagePatient W assessment currentDrug formularyDrug = Inl message"
    by (simp add: triagePatient_def)
  from parsed thrown free show ?thesis by blast
qed

theorem triage_returns_reply_witness:
  "triageLLM emptyReplyWorld stableAssessment (ascii ''Humira'') (Some humira) = TriageParsed cautiousTriage
   \<and> triagePatient emptyReplyWorld stableAssessment (ascii ''Humira'') (Some humira) = Inr cautiousTriage
   \<and> canDoseReduce cautiousTriage = Bool False"
proof -
  have r: "triageLLM emptyReplyWorld stableAssessment (ascii ''Humira'') (Some humira)
             = TriageParsed cautiousTriage"
    by (simp add: emptyReplyWorld_def)
  from triage_returns_reply [of emptyReplyWorld stableAssessment "ascii ''Humira''" "Some humira"
      cautiousTriage] r
  show ?thesis by (simp add: cautiousTriage_def)
qed

text \<open>
  C8: when the patient is found and has no current biologic, \<open>generateLLMRecommendations\<close>
  throws; it returns no result, so no empty list of recommendations. The message
  names the missing biologic when the patient has a plan, and the missing plan
  otherwise.
\<close>

theorem no_current_biologic_throws:
  assumes "findPatient W (patientId assessment) = Some patient"
      and "p_currentBiologics patient = []"
  shows "generateLLMRecommendations B W assessment
           = Inl (if p_plan patient = None then ''Patient or plan not found''
                  else ''No current biologic found for patient'')"
  using assms by (simp add: generateLLMRecommendations_def split: option.splits)

theorem no_current_biologic_throws_witness:
  "findPatient emptyReplyWorld (patientId (stableAssessment\<lparr>patientId := ''p2''\<rparr>))
     = Some patientWithoutBiologic
   \<and> p_currentBiologics patientWithoutBiologic = []
   \<and> generateLLMRecommendations sampleBuiltins emptyReplyWorld (stableAssessment\<lparr>patientId := ''p2''\<rparr>)
       = Inl ''No current biologic found for patient''"
proof -
  have f: "findPatient emptyReplyWorld (patientId (stableAssessment\<lparr>patientId := ''p2''\<rparr>))
     = Some patientWithoutBiologic"
    by (simp add: emptyReplyWorld_def)
  have b: "p_currentBiologics patientWithoutBiologic = []"
    by (simp add: patientWithoutBiologic_def)
  have p: "p_plan patientWithoutBiologic \<noteq> None"
    by (simp add: patientWithoutBiologic_def)
  from no_current_biologic_throws [OF f b, of sampleBuiltins] f b p show ?thesis by simp
qed

section \<open>Properties of the assessment endpoint\<close>

text \<open>
  C1 asks for a fallback: when the recommendation call of the model throws or yields no
  recommendation, the rule-based generator answers in its place and the caller sees no
  error. The code does not do this. \<open>getLLMRecommendationSuggestions\<close> throws ("re-throw
  to trigger fallback"), \<open>generateLLMRecommendations\<close> has no handler, and the one
  handler of \<open>POST\<close> turns the exception into status 500. Here the API key is set, the
  patient is on a biologic, the rule-based generator would return one recommendation,
  and the model's reply holds none (first) or the call throws (second): both requests
  end with status 500 and no recommendation saved.
\<close>

theorem POST_llm_failure_is_surfaced:
  "truthyStr (OPENAI_API_KEY emptyReplyWorld)
   \<and> findPatient emptyReplyWorld ''p1'' = Some patientOnHumira
   \<and> p_currentBiologics patientOnHumira \<noteq> []
   \<and> generateRecommendations emptyReplyWorld stableAssessment = Inr ruleBasedResult
   \<and> length (recommendations ruleBasedResult) = 1
   \<and> POST sampleBuiltins emptyReplyWorld (Inr stableRequest)
       = \<lparr> post_response =
             \<lparr> status = 500, body = ErrorMessage ''LLM returned no recommendations'' \<rparr>,
           post_assessmentCreated = True,
           post_recommendationsSaved = [] \<rparr>
   \<and> POST sampleBuiltins
        (emptyReplyWorld\<lparr>recommendationLLM :=
           (\<lambda>assessment drug triage evidence options current contra.
              RecsThrows ''Request timed out.'')\<rparr>)
        (Inr stableRequest)
       = \<lparr> post_response = \<lparr> status = 500, body = ErrorMessage ''Request timed out.'' \<rparr>,
           post_assessmentCreated = True,
           post_recommendationsSaved = [] \<rparr>"
  by code_simp

end
